theory Spec2Isabelle
  imports Main
begin

section \<open>Objects and the type-check builtins (objects/builtin\_type\_checks.go)\<close>

text \<open>
  A Go \<^verbatim>\<open>Object\<close> is an interface value: either the nil interface, or a pointer
  together with its dynamic type. The type-check builtins never read the fields behind
  the pointer: a type assertion \<^verbatim>\<open>args[0].(*String)\<close> looks at the dynamic type only,
  and \<^verbatim>\<open>args[0] == UndefinedValue\<close> compares the dynamic type and the pointer. So an
  object is modelled by these two components. \<open>OtherType\<close> stands for every dynamic
  type the file does not name (compiled functions, closures, builtin functions, types
  of the host).
\<close>

datatype object_type =
    StringType | IntType | FloatType | BoolType | CharType | BytesType
  | ArrayType | ImmutableArrayType | MapType | ImmutableMapType
  | TimeType | ErrorType | UndefinedType
  | OtherType string

type_synonym pointer = nat

datatype object = NilObject | Ref object_type pointer

datatype error = ErrWrongNumArguments

text \<open>The dynamic type of an object; the nil interface has none.\<close>

fun dynamic_type :: "object \<Rightarrow> object_type option" where
  "dynamic_type NilObject = None"
| "dynamic_type (Ref t p) = Some t"

text \<open>
  The type assertion \<^verbatim>\<open>_, ok := x.(*T)\<close>: \<open>ok\<close> holds when the dynamic type of
  \<open>x\<close> is \<open>*T\<close>. It is false on the nil interface and never panics in this form.
\<close>

definition type_assert :: "object \<Rightarrow> object_type \<Rightarrow> bool" where
  "type_assert x t = (dynamic_type x = Some t)"

text \<open>
  Modelled from the spec: the canonical objects \<^verbatim>\<open>TrueValue\<close>, \<^verbatim>\<open>FalseValue\<close> and
  \<^verbatim>\<open>UndefinedValue\<close>, package variables that the file uses and that are declared
  outside src/. By the value model of the spec (3) they are the two Bool values and the
  Undefined value; as package variables they are three distinct objects, modelled as
  pointers at three distinct addresses. Likewise \<^verbatim>\<open>ErrWrongNumArguments\<close> is an
  error the file names and does not declare.
\<close>

definition TrueValue :: object where
  "TrueValue = Ref BoolType 1"

definition FalseValue :: object where
  "FalseValue = Ref BoolType 2"

definition UndefinedValue :: object where
  "UndefinedValue = Ref UndefinedType 0"

text \<open>
  Go's \<^verbatim>\<open>xs[i]\<close>: the element, or a run-time panic (index out of range), which is
  \<open>None\<close> here.
\<close>

definition go_index :: "'a list \<Rightarrow> nat \<Rightarrow> 'a option" where
  "go_index xs i = (if i < length xs then Some (xs ! i) else None)"

text \<open>
  The outcome of a call of a builtin: \<open>None\<close> is a panic, the fatal fault of the Go
  run time; \<open>Some r\<close> is a return of the Go pair \<^verbatim>\<open>(Object, error)\<close>, where
  \<open>Inl e\<close> is \<^verbatim>\<open>return nil, e\<close> (an error and no value) and \<open>Inr v\<close> is
  \<^verbatim>\<open>return v, nil\<close>. Each function keeps the order of the source: the length check,
  then the read of \<^verbatim>\<open>args[0]\<close> with its type assertion.
\<close>

type_synonym outcome = "(error + object) option"

definition builtinIsString :: "object list \<Rightarrow> outcome" where
  "builtinIsString args =
     (if length args \<noteq> 1 then Some (Inl ErrWrongNumArguments)
      else case go_index args 0 of
             None \<Rightarrow> None
           | Some x \<Rightarrow>
               if type_assert x StringType then Some (Inr TrueValue)
               else Some (Inr FalseValue))"

definition builtinIsInt :: "object list \<Rightarrow> outcome" where
  "builtinIsInt args =
     (if length args \<noteq> 1 then Some (Inl ErrWrongNumArguments)
      else case go_index args 0 of
             None \<Rightarrow> None
           | Some x \<Rightarrow>
               if type_assert x IntType then Some (Inr TrueValue)
               else Some (Inr FalseValue))"

definition builtinIsFloat :: "object list \<Rightarrow> outcome" where
  "builtinIsFloat args =
     (if length args \<noteq> 1 then Some (Inl ErrWrongNumArguments)
      else case go_index args 0 of
             None \<Rightarrow> None
           | Some x \<Rightarrow>
               if type_assert x FloatType then Some (Inr TrueValue)
               else Some (Inr FalseValue))"

definition builtinIsBool :: "object list \<Rightarrow> outcome" where
  "builtinIsBool args =
     (if length args \<noteq> 1 then Some (Inl ErrWrongNumArguments)
      else case go_index args 0 of
             None \<Rightarrow> None
           | Some x \<Rightarrow>
               if type_assert x BoolType then Some (Inr TrueValue)
               else Some (Inr FalseValue))"

definition builtinIsChar :: "object list \<Rightarrow> outcome" where
  "builtinIsChar args =
     (if length args \<noteq> 1 then Some (Inl ErrWrongNumArguments)
      else case go_index args 0 of
             None \<Rightarrow> None
           | Some x \<Rightarrow>
               if type_assert x CharType then Some (Inr TrueValue)
               else Some (Inr FalseValue))"

definition builtinIsBytes :: "object list \<Rightarrow> outcome" where
  "builtinIsBytes args =
     (if length args \<noteq> 1 then Some (Inl ErrWrongNumArguments)
      else case go_index args 0 of
             None \<Rightarrow> None
           | Some x \<Rightarrow>
               if type_assert x BytesType then Some (Inr TrueValue)
               else Some (Inr FalseValue))"

definition builtinIsArray :: "object list \<Rightarrow> outcome" where
  "builtinIsArray args =
     (if length args \<noteq> 1 then Some (Inl ErrWrongNumArguments)
      else case go_index args 0 of
             None \<Rightarrow> None
           | Some x \<Rightarrow>
               if type_assert x ArrayType then Some (Inr TrueValue)
               else Some (Inr FalseValue))"

definition builtinIsImmutableArray :: "object list \<Rightarrow> outcome" where
  "builtinIsImmutableArray args =
     (if length args \<noteq> 1 then Some (Inl ErrWrongNumArguments)
      else case go_index args 0 of
             None \<Rightarrow> None
           | Some x \<Rightarrow>
               if type_assert x ImmutableArrayType then Some (Inr TrueValue)
               else Some (Inr FalseValue))"

definition builtinIsMap :: "object list \<Rightarrow> outcome" where
  "builtinIsMap args =
     (if length args \<noteq> 1 then Some (Inl ErrWrongNumArguments)
      else case go_index args 0 of
             None \<Rightarrow> None
           | Some x \<Rightarrow>
               if type_assert x MapType then Some (Inr TrueValue)
               else Some (Inr FalseValue))"

definition builtinIsImmutableMap :: "object list \<Rightarrow> outcome" where
  "builtinIsImmutableMap args =
     (if length args \<noteq> 1 then Some (Inl ErrWrongNumArguments)
      else case go_index args 0 of
             None \<Rightarrow> None
           | Some x \<Rightarrow>
               if type_assert x ImmutableMapType then Some (Inr TrueValue)
               else Some (Inr FalseValue))"

definition builtinIsTime :: "object list \<Rightarrow> outcome" where
  "builtinIsTime args =
     (if length args \<noteq> 1 then Some (Inl ErrWrongNumArguments)
      else case go_index args 0 of
             None \<Rightarrow> None
           | Some x \<Rightarrow>
               if type_assert x TimeType then Some (Inr TrueValue)
               else Some (Inr FalseValue))"

definition builtinIsError :: "object list \<Rightarrow> outcome" where
  "builtinIsError args =
     (if length args \<noteq> 1 then Some (Inl ErrWrongNumArguments)
      else case go_index args 0 of
             None \<Rightarrow> None
           | Some x \<Rightarrow>
               if type_assert x ErrorType then Some (Inr TrueValue)
               else Some (Inr FalseValue))"

definition builtinIsUndefined :: "object list \<Rightarrow> outcome" where
  "builtinIsUndefined args =
     (if length args \<noteq> 1 then Some (Inl ErrWrongNumArguments)
      else case go_index args 0 of
             None \<Rightarrow> None
           | Some x \<Rightarrow>
               if x = UndefinedValue then Some (Inr TrueValue)
               else Some (Inr FalseValue))"

section \<open>Name resolution and sandbox controls of the compiler\<close>

text \<open>
  The compiler, its symbol table and the script package are not among the source files:
  only the tests of the script package and the embedding guide are. This part is
  therefore modelled from the spec (sections 3, 4.2 to 4.5, 6 and 7); every definition
  says which sentences it follows. The parser is outside the spec's scope, so a script
  is its syntax tree. The virtual machine is not modelled: nothing below runs bytecode.
\<close>

subsection \<open>Symbol table (spec 3 and 4.2)\<close>

text \<open>
  Modelled from the spec: the symbol table, which is not under src/. "Symbol: {name,
  scope kind in {Global, Local, Free, Builtin}, index}"; "Scope: a stack of symbol
  tables - one per enclosing function/block plus the global scope - children resolve
  through parents but never own them". A table is the global scope, or the scope of a
  function literal with its parent. The spec gives its rules (4.2, 4.3) for function
  scopes and the global scope, and these are the scopes modelled: the bodies of if and
  for are compiled in the scope that encloses them. A scope holds its bindings (latest
  first), the number of its definitions, and a function scope also the list of the
  symbols it captures from enclosing functions. A position \<open>pos\<close> is the source
  position an error message names.
\<close>

type_synonym pos = nat

datatype scope_kind = ScopeGlobal | ScopeLocal | ScopeFree | ScopeBuiltin

datatype symbol = Symbol (sym_name: string) (sym_scope: scope_kind) (sym_index: nat)

datatype symbol_table =
    GlobalScope "(string \<times> symbol) list" nat
  | FunctionScope "(string \<times> symbol) list" nat "symbol list" symbol_table

text \<open>
  Modelled from the spec: "define(name) assigns the next free index in the current
  scope, recording scope kind. Redefinition within the same non-global scope silently
  rebinds to a new index (no error); at Global scope a given name retains one stable
  index for the program's lifetime".
\<close>

fun define_symbol :: "string \<Rightarrow> symbol_table \<Rightarrow> symbol \<times> symbol_table" where
  "define_symbol n (GlobalScope st k) =
     (case map_of st n of
        Some s \<Rightarrow> (s, GlobalScope st k)
      | None \<Rightarrow> (Symbol n ScopeGlobal k, GlobalScope ((n, Symbol n ScopeGlobal k) # st) (Suc k)))"
| "define_symbol n (FunctionScope st k fr p) =
     (Symbol n ScopeLocal k, FunctionScope ((n, Symbol n ScopeLocal k) # st) (Suc k) fr p)"

text \<open>
  Modelled from the spec: "resolve(name) walks scopes innermost to outermost. A hit in
  a strictly enclosing function scope (not the immediate scope, not global) is promoted
  to Free: it is registered as a captured free variable in every enclosing function
  scope between its definition and use, each given a local free-variable index; this
  ordered list becomes the closure's capture list". \<open>resolve_scoped\<close> looks at the
  user-defined symbols only; it returns the table too, since a promotion changes it.
\<close>

fun resolve_scoped :: "string \<Rightarrow> symbol_table \<Rightarrow> (symbol \<times> symbol_table) option" where
  "resolve_scoped n (GlobalScope st k) =
     (case map_of st n of
        Some s \<Rightarrow> Some (s, GlobalScope st k)
      | None \<Rightarrow> None)"
| "resolve_scoped n (FunctionScope st k fr p) =
     (case map_of st n of
        Some s \<Rightarrow> Some (s, FunctionScope st k fr p)
      | None \<Rightarrow>
          (case resolve_scoped n p of
             None \<Rightarrow> None
           | Some (s, p') \<Rightarrow>
               if sym_scope s = ScopeGlobal then Some (s, FunctionScope st k fr p')
               else Some (Symbol n ScopeFree (length fr),
                          FunctionScope ((n, Symbol n ScopeFree (length fr)) # st) k (fr @ [s]) p')))"

fun index_of :: "'a \<Rightarrow> 'a list \<Rightarrow> nat option" where
  "index_of x [] = None"
| "index_of x (y # ys) = (if x = y then Some 0 else map_option Suc (index_of x ys))"

subsection \<open>Syntax trees, instructions and errors (spec 4.3, 6 and 7)\<close>

text \<open>
  Modelled from the spec: the syntax tree the front end supplies, "a tree of typed nodes
  (literals, identifiers, binary/unary ops, if/for/function/import expressions,
  assignment, index/selector), each carrying a source position used only for error
  messages". Positions are kept on the nodes whose errors name one. \<open>DefineStmt\<close>
  is \<^verbatim>\<open>a := e\<close>, \<open>AssignStmt\<close> is \<^verbatim>\<open>a = e\<close>; a function literal has its
  parameters, its variadic flag and its body. Float literals and map literals are left
  out.
\<close>

datatype binop = Add | Sub | Mul | Quo | Rem | Equal | NotEqual | Less | Greater | LessEq | GreaterEq
datatype unop = NotOp | NegOp

datatype expr =
    IntLit int
  | StringLit string
  | CharLit nat
  | BoolLit bool
  | UndefinedLit
  | Ident string pos
  | BinaryExpr binop expr expr
  | LogicalAnd expr expr
  | LogicalOr expr expr
  | UnaryExpr unop expr
  | ArrayLit "expr list"
  | IndexExpr expr expr
  | SelectorExpr expr string
  | CallExpr expr "expr list"
  | FuncLit "string list" bool "stmt list"
  | ImportExpr string pos
and stmt =
    ExprStmt expr
  | DefineStmt string expr
  | AssignStmt string pos expr
  | IfStmt expr "stmt list" "stmt list"
  | ForStmt expr "stmt list"
  | BreakStmt pos
  | ContinueStmt pos
  | ReturnStmt "expr option"

text \<open>
  Modelled from the spec: the instructions and the constant pool of a Bytecode. The spec
  names no opcodes; these are the ones its compiler design needs (4.3: conditional
  jumps for if, and/or and loops, a call for a function and for an import, constants
  from a pool). Jumps hold the distance from the jump to its target. \<open>OpBreak\<close>
  and \<open>OpContinue\<close> are the placeholders of a loop body, replaced once the loop is
  complete. A compiled function is "{max locals, parameter count, variadic flag,
  instruction stream}"; \<open>StdModule\<close> is a standard-library module, a fixed table of
  builtin functions that is named and not spelled out.
\<close>

datatype instr =
    OpConstant nat | OpTrue | OpFalse | OpUndefined | OpPop
  | OpBinaryOp binop | OpUnaryOp unop
  | OpJump int | OpJumpFalsy int | OpAndJump int | OpOrJump int
  | OpBreak | OpContinue
  | OpGetGlobal nat | OpSetGlobal nat
  | OpGetLocal nat | OpSetLocal nat | OpGetLocalPtr nat
  | OpGetFree nat | OpSetFree nat | OpGetFreePtr nat
  | OpGetBuiltin nat
  | OpArray nat | OpIndex
  | OpClosure nat nat | OpCall nat | OpReturn | OpReturnValue

datatype const =
    IntConst int
  | StringConst string
  | CharConst nat
  | CompiledFunction "instr list" nat nat bool
  | StdModule string

text \<open>
  Modelled from the spec: the compile-time errors of section 7, "undefined identifier,
  disabled builtin/module reference, import cycle, module-not-found, misplaced
  break/continue, duplicate parameter - each carries a source position, halts
  compilation, and never yields a partially usable Bytecode".
\<close>

datatype compile_error =
    UndefinedIdentifier string pos
  | DisabledBuiltin string pos
  | DisabledModule string pos
  | ModuleNotFound string pos
  | ImportCycle string pos
  | MisplacedBreak pos
  | MisplacedContinue pos
  | DuplicateParameter string

text \<open>
  Modelled from the spec: the compiler's configuration. "Compile: (AST, sandbox-config,
  module-resolver) -> (Bytecode, error)"; "Sandbox configuration: two name sets
  (builtins, standard modules), fixed for the duration of one compilation"; the builtin
  registry is "passed explicitly into the Compiler's configuration". The module
  resolver (4.5) is a parameter: for a name it returns the module's entry function or
  prebuilt value, or fails with not-found or with a circular import.
\<close>

datatype resolver_error = NotFound | Cycle

record config =
  builtins :: "string list"
  disabled_builtins :: "string set"
  disabled_modules :: "string set"
  module_resolver :: "string \<Rightarrow> resolver_error + const"

text \<open>
  Modelled from the spec: name resolution of an identifier. "Builtins resolve only when
  no user-defined symbol of that name is in scope and the name is not disabled (4.4)";
  "Any identifier lookup or import that would resolve to a disabled name fails
  compilation with a descriptive error"; "Referencing an undefined identifier is a
  compile error naming it and its source position". A builtin symbol's index is its
  place in the builtin table.
\<close>

definition resolve ::
  "config \<Rightarrow> string \<Rightarrow> pos \<Rightarrow> symbol_table \<Rightarrow> compile_error + (symbol \<times> symbol_table)" where
  "resolve cfg n ps tab =
     (case resolve_scoped n tab of
        Some r \<Rightarrow> Inr r
      | None \<Rightarrow>
          (case index_of n (builtins cfg) of
             Some i \<Rightarrow>
               if n \<in> disabled_builtins cfg then Inl (DisabledBuiltin n ps)
               else Inr (Symbol n ScopeBuiltin i, tab)
           | None \<Rightarrow> Inl (UndefinedIdentifier n ps)))"

subsection \<open>The compiler (spec 4.3)\<close>

text \<open>
  Modelled from the spec: "constant pool (deduplicated literal Values)".
\<close>

definition add_constant :: "const \<Rightarrow> const list \<Rightarrow> nat \<times> const list" where
  "add_constant c cs =
     (case index_of c cs of Some i \<Rightarrow> (i, cs) | None \<Rightarrow> (length cs, cs @ [c]))"

text \<open>
  The compiler threads its state, the symbol table and the constant pool, through the
  tree and stops at the first error: \<open>bindE\<close> is that sequencing.
\<close>

type_synonym cstate = "symbol_table \<times> const list"

definition bindE ::
  "'e + ('a \<times> 's) \<Rightarrow> ('a \<Rightarrow> 's \<Rightarrow> 'e + 'b) \<Rightarrow> 'e + 'b" where
  "bindE m f = (case m of Inl e \<Rightarrow> Inl e | Inr (x, st) \<Rightarrow> f x st)"

lemma bindE_cong [fundef_cong]:
  "m = m' \<Longrightarrow> (\<And>x st. m' = Inr (x, st) \<Longrightarrow> f x st = f' x st) \<Longrightarrow> bindE m f = bindE m' f'"
  by (auto simp: bindE_def split: sum.splits)

text \<open>
  Modelled from the spec: the instruction that reads, writes or captures a resolved
  symbol, by its scope kind. A builtin is never a target of \<open>store_symbol\<close> and only
  local and free symbols are captured (\<open>resolve_scoped\<close> promotes no global).
\<close>

fun load_symbol :: "symbol \<Rightarrow> instr" where
  "load_symbol (Symbol n ScopeGlobal i) = OpGetGlobal i"
| "load_symbol (Symbol n ScopeLocal i) = OpGetLocal i"
| "load_symbol (Symbol n ScopeFree i) = OpGetFree i"
| "load_symbol (Symbol n ScopeBuiltin i) = OpGetBuiltin i"

fun store_symbol :: "symbol \<Rightarrow> instr" where
  "store_symbol (Symbol n ScopeGlobal i) = OpSetGlobal i"
| "store_symbol (Symbol n ScopeLocal i) = OpSetLocal i"
| "store_symbol (Symbol n ScopeFree i) = OpSetFree i"
| "store_symbol (Symbol n ScopeBuiltin i) = OpPop"

fun capture_symbol :: "symbol \<Rightarrow> instr" where
  "capture_symbol (Symbol n ScopeFree i) = OpGetFreePtr i"
| "capture_symbol (Symbol n k i) = OpGetLocalPtr i"

text \<open>
  Modelled from the spec: "Loops emit a back-edge jump to the condition test and record
  placeholder break/continue jumps backpatched once the loop's exit offset is known".
  \<open>patch_loop\<close> walks the body with the distances to the loop's start and exit.
\<close>

fun patch_loop :: "int \<Rightarrow> int \<Rightarrow> instr list \<Rightarrow> instr list" where
  "patch_loop to_start to_exit [] = []"
| "patch_loop to_start to_exit (i # rest) =
     (if i = OpBreak then OpJump to_exit
      else if i = OpContinue then OpJump to_start
      else i) # patch_loop (to_start - 1) (to_exit - 1) rest"

text \<open>
  Modelled from the spec: entering and leaving the scope of a function literal ("Each
  function literal opens a new Symbol Table scope"), and the error for a duplicate
  parameter. \<open>leave_scope\<close> gives the capture list, the number of locals and the
  enclosing table; the compiler only leaves a scope it has entered, so its global case
  is never reached.
\<close>

fun define_all :: "string list \<Rightarrow> symbol_table \<Rightarrow> symbol_table" where
  "define_all [] tab = tab"
| "define_all (n # ns) tab = define_all ns (snd (define_symbol n tab))"

fun first_duplicate :: "string list \<Rightarrow> string option" where
  "first_duplicate [] = None"
| "first_duplicate (n # ns) = (if n \<in> set ns then Some n else first_duplicate ns)"

fun leave_scope :: "symbol_table \<Rightarrow> symbol list \<times> nat \<times> symbol_table" where
  "leave_scope (FunctionScope st k fr p) = (fr, k, p)"
| "leave_scope (GlobalScope st k) = ([], k, GlobalScope st k)"

text \<open>
  Modelled from the spec (4.3): the compiler walks the tree and emits instructions.
  "if compiles to a conditional jump over the else branch"; "and/or compile to
  conditional jumps (short-circuit)"; "a break/continue outside any loop is a compile
  error" (the flag \<open>lp\<close> says whether a loop encloses the statement; a function
  literal starts outside any loop); "An import expression resolves its target name
  against disabled-module and disabled-builtin sets first (compile error if disabled or
  unknown); otherwise it delegates to the Module Resolver to obtain or trigger
  compilation of the target, then emits a call to that module's entry function". An
  assignment needs a user-defined symbol as its target.
\<close>

function (sequential) compile_expr :: "config \<Rightarrow> expr \<Rightarrow> cstate \<Rightarrow> compile_error + (instr list \<times> cstate)"
and compile_exprs :: "config \<Rightarrow> expr list \<Rightarrow> cstate \<Rightarrow> compile_error + (instr list \<times> cstate)"
and compile_stmt :: "config \<Rightarrow> bool \<Rightarrow> stmt \<Rightarrow> cstate \<Rightarrow> compile_error + (instr list \<times> cstate)"
and compile_stmts :: "config \<Rightarrow> bool \<Rightarrow> stmt list \<Rightarrow> cstate \<Rightarrow> compile_error + (instr list \<times> cstate)"
where
  "compile_expr cfg (IntLit v) (tab, cs) =
     (case add_constant (IntConst v) cs of (k, cs') \<Rightarrow> Inr ([OpConstant k], (tab, cs')))"
| "compile_expr cfg (StringLit v) (tab, cs) =
     (case add_constant (StringConst v) cs of (k, cs') \<Rightarrow> Inr ([OpConstant k], (tab, cs')))"
| "compile_expr cfg (CharLit v) (tab, cs) =
     (case add_constant (CharConst v) cs of (k, cs') \<Rightarrow> Inr ([OpConstant k], (tab, cs')))"
| "compile_expr cfg (BoolLit b) st = Inr ([if b then OpTrue else OpFalse], st)"
| "compile_expr cfg UndefinedLit st = Inr ([OpUndefined], st)"
| "compile_expr cfg (Ident n ps) (tab, cs) =
     bindE (resolve cfg n ps tab) (\<lambda>s tab'. Inr ([load_symbol s], (tab', cs)))"
| "compile_expr cfg (BinaryExpr op l r) st =
     bindE (compile_expr cfg l st) (\<lambda>cl st1.
     bindE (compile_expr cfg r st1) (\<lambda>cr st2.
       Inr (cl @ cr @ [OpBinaryOp op], st2)))"
| "compile_expr cfg (LogicalAnd l r) st =
     bindE (compile_expr cfg l st) (\<lambda>cl st1.
     bindE (compile_expr cfg r st1) (\<lambda>cr st2.
       Inr (cl @ [OpAndJump (int (length cr) + 1)] @ cr, st2)))"
| "compile_expr cfg (LogicalOr l r) st =
     bindE (compile_expr cfg l st) (\<lambda>cl st1.
     bindE (compile_expr cfg r st1) (\<lambda>cr st2.
       Inr (cl @ [OpOrJump (int (length cr) + 1)] @ cr, st2)))"
| "compile_expr cfg (UnaryExpr op e) st =
     bindE (compile_expr cfg e st) (\<lambda>c st1. Inr (c @ [OpUnaryOp op], st1))"
| "compile_expr cfg (ArrayLit es) st =
     bindE (compile_exprs cfg es st) (\<lambda>c st1. Inr (c @ [OpArray (length es)], st1))"
| "compile_expr cfg (IndexExpr e i) st =
     bindE (compile_expr cfg e st) (\<lambda>ce st1.
     bindE (compile_expr cfg i st1) (\<lambda>ci st2.
       Inr (ce @ ci @ [OpIndex], st2)))"
| "compile_expr cfg (SelectorExpr e f) st =
     bindE (compile_expr cfg e st) (\<lambda>ce (tab, cs).
       case add_constant (StringConst f) cs of (k, cs') \<Rightarrow>
         Inr (ce @ [OpConstant k, OpIndex], (tab, cs')))"
| "compile_expr cfg (CallExpr f args) st =
     bindE (compile_expr cfg f st) (\<lambda>cf st1.
     bindE (compile_exprs cfg args st1) (\<lambda>ca st2.
       Inr (cf @ ca @ [OpCall (length args)], st2)))"
| "compile_expr cfg (FuncLit params variadic body) (tab, cs) =
     (case first_duplicate params of
        Some p \<Rightarrow> Inl (DuplicateParameter p)
      | None \<Rightarrow>
          bindE (compile_stmts cfg False body (define_all params (FunctionScope [] 0 [] tab), cs))
            (\<lambda>cb (tab1, cs1).
               case leave_scope tab1 of (fr, nlocals, tab2) \<Rightarrow>
               case add_constant
                      (CompiledFunction (cb @ [OpReturn]) nlocals (length params) variadic) cs1
               of (k, cs2) \<Rightarrow>
                 Inr (map capture_symbol fr @ [OpClosure k (length fr)], (tab2, cs2))))"
| "compile_expr cfg (ImportExpr n ps) (tab, cs) =
     (if n \<in> disabled_modules cfg then Inl (DisabledModule n ps)
      else if n \<in> disabled_builtins cfg then Inl (DisabledBuiltin n ps)
      else case module_resolver cfg n of
             Inl NotFound \<Rightarrow> Inl (ModuleNotFound n ps)
           | Inl Cycle \<Rightarrow> Inl (ImportCycle n ps)
           | Inr m \<Rightarrow>
               (case add_constant m cs of (k, cs') \<Rightarrow>
                  Inr ([OpConstant k, OpCall 0], (tab, cs'))))"
| "compile_exprs cfg [] st = Inr ([], st)"
| "compile_exprs cfg (e # es) st =
     bindE (compile_expr cfg e st) (\<lambda>c st1.
     bindE (compile_exprs cfg es st1) (\<lambda>cr st2. Inr (c @ cr, st2)))"
| "compile_stmt cfg lp (ExprStmt e) st =
     bindE (compile_expr cfg e st) (\<lambda>c st1. Inr (c @ [OpPop], st1))"
| "compile_stmt cfg lp (DefineStmt n e) st =
     bindE (compile_expr cfg e st) (\<lambda>c (tab, cs).
       case define_symbol n tab of (s, tab') \<Rightarrow> Inr (c @ [store_symbol s], (tab', cs)))"
| "compile_stmt cfg lp (AssignStmt n ps e) st =
     bindE (compile_expr cfg e st) (\<lambda>c (tab, cs).
       case resolve_scoped n tab of
         None \<Rightarrow> Inl (UndefinedIdentifier n ps)
       | Some (s, tab') \<Rightarrow> Inr (c @ [store_symbol s], (tab', cs)))"
| "compile_stmt cfg lp (IfStmt c t e) st =
     bindE (compile_expr cfg c st) (\<lambda>cc st1.
     bindE (compile_stmts cfg lp t st1) (\<lambda>ct st2.
     bindE (compile_stmts cfg lp e st2) (\<lambda>ce st3.
       Inr (cc @ [OpJumpFalsy (int (length ct) + 2)] @ ct @ [OpJump (int (length ce) + 1)] @ ce,
            st3))))"
| "compile_stmt cfg lp (ForStmt c b) st =
     bindE (compile_expr cfg c st) (\<lambda>cc st1.
     bindE (compile_stmts cfg True b st1) (\<lambda>cb st2.
       Inr (cc @ [OpJumpFalsy (int (length cb) + 2)]
               @ patch_loop (- (int (length cc) + 1)) (int (length cb) + 1) cb
               @ [OpJump (- (int (length cc) + 1 + int (length cb)))],
            st2)))"
| "compile_stmt cfg lp (BreakStmt ps) st =
     (if lp then Inr ([OpBreak], st) else Inl (MisplacedBreak ps))"
| "compile_stmt cfg lp (ContinueStmt ps) st =
     (if lp then Inr ([OpContinue], st) else Inl (MisplacedContinue ps))"
| "compile_stmt cfg lp (ReturnStmt None) st = Inr ([OpReturn], st)"
| "compile_stmt cfg lp (ReturnStmt (Some e)) st =
     bindE (compile_expr cfg e st) (\<lambda>c st1. Inr (c @ [OpReturnValue], st1))"
| "compile_stmts cfg lp [] st = Inr ([], st)"
| "compile_stmts cfg lp (s # ss) st =
     bindE (compile_stmt cfg lp s st) (\<lambda>c st1.
     bindE (compile_stmts cfg lp ss st1) (\<lambda>cr st2. Inr (c @ cr, st2)))"
  by pat_completeness auto
termination
  by (relation "measure (case_sum
        (case_sum (\<lambda>(cfg, e, st). size e) (\<lambda>(cfg, es, st). size_list size es))
        (case_sum (\<lambda>(cfg, lp, s, st). size s) (\<lambda>(cfg, lp, ss, st). size_list size ss)))")
     auto

text \<open>
  Modelled from the spec: "Output: a Bytecode bundle (entry function, constant pool,
  global-slot count)". The variables the host injects are defined as globals, in order,
  before the script is compiled.
\<close>

fun num_definitions :: "symbol_table \<Rightarrow> nat" where
  "num_definitions (GlobalScope st k) = k"
| "num_definitions (FunctionScope st k fr p) = k"

record bytecode =
  main_function :: "instr list"
  constants :: "const list"
  num_globals :: nat

definition compile :: "config \<Rightarrow> string list \<Rightarrow> stmt list \<Rightarrow> compile_error + bytecode" where
  "compile cfg injected prog =
     bindE (compile_stmts cfg False prog (define_all injected (GlobalScope [] 0), []))
       (\<lambda>code (tab, cs).
          Inr \<lparr>main_function = code @ [OpReturn], constants = cs,
               num_globals = num_definitions tab\<rparr>)"

subsection \<open>Names of a script\<close>


text \<open>
  The user-defined names in scope after a statement, given those in scope before it
  (\<open>B\<close>): a definition \<^verbatim>\<open>n := e\<close> adds \<open>n\<close>; the bodies of if and for are
  compiled in the enclosing scope, so their definitions stay; an expression adds
  nothing, since the scope of a function literal ends with the literal.
\<close>

fun binds_stmt :: "string set \<Rightarrow> stmt \<Rightarrow> string set"
and binds_stmts :: "string set \<Rightarrow> stmt list \<Rightarrow> string set"
where
  "binds_stmt B (ExprStmt e) = B"
| "binds_stmt B (DefineStmt n e) = insert n B"
| "binds_stmt B (AssignStmt n ps e) = B"
| "binds_stmt B (IfStmt c t e) = binds_stmts (binds_stmts B t) e"
| "binds_stmt B (ForStmt c b) = binds_stmts B b"
| "binds_stmt B (BreakStmt ps) = B"
| "binds_stmt B (ContinueStmt ps) = B"
| "binds_stmt B (ReturnStmt r) = B"
| "binds_stmts B [] = B"
| "binds_stmts B (s # ss) = binds_stmts (binds_stmt B s) ss"

text \<open>
  The references of a script that no user-defined symbol answers: the names of its
  identifier lookups (identifier expressions and assignment targets) at a place where
  no user-defined symbol of that name is in scope, given the names \<open>B\<close> in scope at
  the start. These are the lookups that go on to the builtin table (spec 4.2:
  "Builtins resolve only when no user-defined symbol of that name is in scope"). The
  parameters of a function literal are in scope in its body; a definition is in scope
  from the statement after it.
\<close>

fun free_names :: "string set \<Rightarrow> expr \<Rightarrow> string set"
and free_names_list :: "string set \<Rightarrow> expr list \<Rightarrow> string set"
and free_names_stmt :: "string set \<Rightarrow> stmt \<Rightarrow> string set"
and free_names_stmts :: "string set \<Rightarrow> stmt list \<Rightarrow> string set"
where
  "free_names B (IntLit v) = {}"
| "free_names B (StringLit v) = {}"
| "free_names B (CharLit v) = {}"
| "free_names B (BoolLit b) = {}"
| "free_names B UndefinedLit = {}"
| "free_names B (Ident n ps) = (if n \<in> B then {} else {n})"
| "free_names B (BinaryExpr op l r) = free_names B l \<union> free_names B r"
| "free_names B (LogicalAnd l r) = free_names B l \<union> free_names B r"
| "free_names B (LogicalOr l r) = free_names B l \<union> free_names B r"
| "free_names B (UnaryExpr op e) = free_names B e"
| "free_names B (ArrayLit es) = free_names_list B es"
| "free_names B (IndexExpr e i) = free_names B e \<union> free_names B i"
| "free_names B (SelectorExpr e f) = free_names B e"
| "free_names B (CallExpr f args) = free_names B f \<union> free_names_list B args"
| "free_names B (FuncLit params variadic body) = free_names_stmts (B \<union> set params) body"
| "free_names B (ImportExpr n ps) = {}"
| "free_names_list B [] = {}"
| "free_names_list B (e # es) = free_names B e \<union> free_names_list B es"
| "free_names_stmt B (ExprStmt e) = free_names B e"
| "free_names_stmt B (DefineStmt n e) = free_names B e"
| "free_names_stmt B (AssignStmt n ps e) = free_names B e \<union> (if n \<in> B then {} else {n})"
| "free_names_stmt B (IfStmt c t e) =
     free_names B c \<union> free_names_stmts B t \<union> free_names_stmts (binds_stmts B t) e"
| "free_names_stmt B (ForStmt c b) = free_names B c \<union> free_names_stmts B b"
| "free_names_stmt B (BreakStmt ps) = {}"
| "free_names_stmt B (ContinueStmt ps) = {}"
| "free_names_stmt B (ReturnStmt None) = {}"
| "free_names_stmt B (ReturnStmt (Some e)) = free_names B e"
| "free_names_stmts B [] = {}"
| "free_names_stmts B (s # ss) = free_names_stmt B s \<union> free_names_stmts (binds_stmt B s) ss"

text \<open>The modules a script imports.\<close>

fun imports_of :: "expr \<Rightarrow> string set"
and imports_of_list :: "expr list \<Rightarrow> string set"
and imports_of_stmt :: "stmt \<Rightarrow> string set"
and imports_of_stmts :: "stmt list \<Rightarrow> string set"
where
  "imports_of (IntLit v) = {}"
| "imports_of (StringLit v) = {}"
| "imports_of (CharLit v) = {}"
| "imports_of (BoolLit b) = {}"
| "imports_of UndefinedLit = {}"
| "imports_of (Ident n ps) = {}"
| "imports_of (BinaryExpr op l r) = imports_of l \<union> imports_of r"
| "imports_of (LogicalAnd l r) = imports_of l \<union> imports_of r"
| "imports_of (LogicalOr l r) = imports_of l \<union> imports_of r"
| "imports_of (UnaryExpr op e) = imports_of e"
| "imports_of (ArrayLit es) = imports_of_list es"
| "imports_of (IndexExpr e i) = imports_of e \<union> imports_of i"
| "imports_of (SelectorExpr e f) = imports_of e"
| "imports_of (CallExpr f args) = imports_of f \<union> imports_of_list args"
| "imports_of (FuncLit params variadic body) = imports_of_stmts body"
| "imports_of (ImportExpr n ps) = {n}"
| "imports_of_list [] = {}"
| "imports_of_list (e # es) = imports_of e \<union> imports_of_list es"
| "imports_of_stmt (ExprStmt e) = imports_of e"
| "imports_of_stmt (DefineStmt n e) = imports_of e"
| "imports_of_stmt (AssignStmt n ps e) = imports_of e"
| "imports_of_stmt (IfStmt c t e) = imports_of c \<union> imports_of_stmts t \<union> imports_of_stmts e"
| "imports_of_stmt (ForStmt c b) = imports_of c \<union> imports_of_stmts b"
| "imports_of_stmt (BreakStmt ps) = {}"
| "imports_of_stmt (ContinueStmt ps) = {}"
| "imports_of_stmt (ReturnStmt None) = {}"
| "imports_of_stmt (ReturnStmt (Some e)) = imports_of e"
| "imports_of_stmts [] = {}"
| "imports_of_stmts (s # ss) = imports_of_stmt s \<union> imports_of_stmts ss"

subsection \<open>Auxiliary notions for the proofs\<close>




subsection \<open>The scripts of the sandbox tests\<close>

text \<open>
  The inputs of \<^verbatim>\<open>TestScript_DisableBuiltinFunction\<close> and
  \<^verbatim>\<open>TestScript_DisableStdModule\<close> (script/script\_test.go), as syntax trees:
  \<^verbatim>\<open>a := len([1, 2, 3])\<close> and \<^verbatim>\<open>math := import("math"); a := math.abs(-19)\<close>
  (the test's float literal is replaced by an integer). Three more scripts place a
  definition of their own beside the builtin's name: \<^verbatim>\<open>len := 1; a := len\<close>, where
  the lookup finds the script's variable; \<^verbatim>\<open>a := len([1, 2, 3]); len := 1\<close>, where
  the definition comes after the lookup; and
  \<^verbatim>\<open>f := func(len) { return len }; a := len([1, 2, 3])\<close>, where the parameter is in
  scope in the function only. The configuration \<open>sandbox db dm\<close> has a small builtin
  table, the disabled sets \<open>db\<close> and \<open>dm\<close>, and a module resolver that knows the
  standard module math only.
\<close>


definition std_resolver :: "string \<Rightarrow> resolver_error + const" where
  "std_resolver n = (if n = ''math'' then Inr (StdModule ''math'') else Inl NotFound)"

definition sandbox :: "string set \<Rightarrow> string set \<Rightarrow> config" where
  "sandbox db dm =
     \<lparr>builtins = [''print'', ''len'', ''is_string'', ''is_int'', ''is_undefined''],
      disabled_builtins = db, disabled_modules = dm, module_resolver = std_resolver\<rparr>"

definition script_len :: "stmt list" where
  "script_len = [DefineStmt ''a'' (CallExpr (Ident ''len'' 5) [ArrayLit [IntLit 1, IntLit 2, IntLit 3]])]"

definition script_math :: "stmt list" where
  "script_math =
     [DefineStmt ''math'' (ImportExpr ''math'' 8),
      DefineStmt ''a'' (CallExpr (SelectorExpr (Ident ''math'' 24) ''abs'') [UnaryExpr NegOp (IntLit 19)])]"

definition script_shadow :: "stmt list" where
  "script_shadow = [DefineStmt ''len'' (IntLit 1), DefineStmt ''a'' (Ident ''len'' 14)]"

definition script_len_later :: "stmt list" where
  "script_len_later =
     [DefineStmt ''a'' (CallExpr (Ident ''len'' 5) [ArrayLit [IntLit 1, IntLit 2, IntLit 3]]),
      DefineStmt ''len'' (IntLit 1)]"

definition script_len_param :: "stmt list" where
  "script_len_param =
     [DefineStmt ''f'' (FuncLit [''len''] False [ReturnStmt (Some (Ident ''len'' 23))]),
      DefineStmt ''a'' (CallExpr (Ident ''len'' 35) [ArrayLit [IntLit 1, IntLit 2, IntLit 3]])]"

section \<open>Properties of the type-check builtins\<close>

lemmas type_check_defs =
  builtinIsString_def builtinIsInt_def builtinIsFloat_def builtinIsBool_def
  builtinIsChar_def builtinIsBytes_def builtinIsArray_def builtinIsImmutableArray_def
  builtinIsMap_def builtinIsImmutableMap_def builtinIsTime_def builtinIsError_def
  builtinIsUndefined_def

lemmas canonical_defs = TrueValue_def FalseValue_def UndefinedValue_def

lemma canonical_distinct:
  "TrueValue \<noteq> FalseValue" "TrueValue \<noteq> UndefinedValue" "FalseValue \<noteq> UndefinedValue"
  by (simp_all add: canonical_defs)

lemma go_index_singleton: "go_index [x] 0 = Some x"
  by (simp add: go_index_def)

lemma length_one_obtain:
  assumes "length args = 1"
  obtains x where "args = [x]"
  using assms by (cases args) auto

text \<open>
  With a wrong number of arguments (none, or two and more) each of the thirteen
  builtins returns the Go error \<open>ErrWrongNumArguments\<close> and no object, without a
  panic, since \<^verbatim>\<open>args[0]\<close> is not read. In particular the builtin itself produces
  no Error object. What becomes of the Go error, an Error value handed to the script
  or the end of the run, is decided by the caller, the virtual machine, which is not
  among the source files.
\<close>

lemma type_checks_wrong_num_arguments:
  assumes "length args \<noteq> 1"
  shows "builtinIsString args = Some (Inl ErrWrongNumArguments)
       \<and> builtinIsInt args = Some (Inl ErrWrongNumArguments)
       \<and> builtinIsFloat args = Some (Inl ErrWrongNumArguments)
       \<and> builtinIsBool args = Some (Inl ErrWrongNumArguments)
       \<and> builtinIsChar args = Some (Inl ErrWrongNumArguments)
       \<and> builtinIsBytes args = Some (Inl ErrWrongNumArguments)
       \<and> builtinIsArray args = Some (Inl ErrWrongNumArguments)
       \<and> builtinIsImmutableArray args = Some (Inl ErrWrongNumArguments)
       \<and> builtinIsMap args = Some (Inl ErrWrongNumArguments)
       \<and> builtinIsImmutableMap args = Some (Inl ErrWrongNumArguments)
       \<and> builtinIsTime args = Some (Inl ErrWrongNumArguments)
       \<and> builtinIsError args = Some (Inl ErrWrongNumArguments)
       \<and> builtinIsUndefined args = Some (Inl ErrWrongNumArguments)"
  using assms unfolding type_check_defs by simp

text \<open>
  C9. Each type-check builtin, called with exactly one argument (an object of any dynamic
  type, or the nil interface), returns no error and does not panic: its result is a
  value, and that value is the canonical object \<open>TrueValue\<close> or the canonical object
  \<open>FalseValue\<close>.
\<close>

theorem type_checks_one_argument:
  assumes "length args = 1"
  shows "builtinIsString args \<in> {Some (Inr TrueValue), Some (Inr FalseValue)}
       \<and> builtinIsInt args \<in> {Some (Inr TrueValue), Some (Inr FalseValue)}
       \<and> builtinIsFloat args \<in> {Some (Inr TrueValue), Some (Inr FalseValue)}
       \<and> builtinIsBool args \<in> {Some (Inr TrueValue), Some (Inr FalseValue)}
       \<and> builtinIsChar args \<in> {Some (Inr TrueValue), Some (Inr FalseValue)}
       \<and> builtinIsBytes args \<in> {Some (Inr TrueValue), Some (Inr FalseValue)}
       \<and> builtinIsArray args \<in> {Some (Inr TrueValue), Some (Inr FalseValue)}
       \<and> builtinIsImmutableArray args \<in> {Some (Inr TrueValue), Some (Inr FalseValue)}
       \<and> builtinIsMap args \<in> {Some (Inr TrueValue), Some (Inr FalseValue)}
       \<and> builtinIsImmutableMap args \<in> {Some (Inr TrueValue), Some (Inr FalseValue)}
       \<and> builtinIsTime args \<in> {Some (Inr TrueValue), Some (Inr FalseValue)}
       \<and> builtinIsError args \<in> {Some (Inr TrueValue), Some (Inr FalseValue)}
       \<and> builtinIsUndefined args \<in> {Some (Inr TrueValue), Some (Inr FalseValue)}"
proof -
  from assms obtain x where x: "args = [x]" by (rule length_one_obtain)
  show ?thesis unfolding x type_check_defs by (simp add: go_index_singleton)
qed

theorem type_checks_one_argument_witness:
  "builtinIsString [Ref StringType 9] = Some (Inr TrueValue)
   \<and> builtinIsString [Ref IntType 9] = Some (Inr FalseValue)
   \<and> builtinIsMap [NilObject] = Some (Inr FalseValue)
   \<and> builtinIsUndefined [UndefinedValue] = Some (Inr TrueValue)"
proof -
  have l1: "length [Ref StringType 9] = 1" by simp
  have l2: "length [Ref IntType 9] = 1" by simp
  have l3: "length [NilObject] = 1" by simp
  have l4: "length [UndefinedValue] = 1" by simp
  have n1: "builtinIsString [Ref StringType 9] \<noteq> Some (Inr FalseValue)"
    by (simp add: builtinIsString_def go_index_def type_assert_def canonical_defs)
  have n2: "builtinIsString [Ref IntType 9] \<noteq> Some (Inr TrueValue)"
    by (simp add: builtinIsString_def go_index_def type_assert_def canonical_defs)
  have n3: "builtinIsMap [NilObject] \<noteq> Some (Inr TrueValue)"
    by (simp add: builtinIsMap_def go_index_def type_assert_def canonical_defs)
  have n4: "builtinIsUndefined [UndefinedValue] \<noteq> Some (Inr FalseValue)"
    by (simp add: builtinIsUndefined_def go_index_def canonical_defs)
  show ?thesis
    using type_checks_one_argument [OF l1] type_checks_one_argument [OF l2]
      type_checks_one_argument [OF l3] type_checks_one_argument [OF l4] n1 n2 n3 n4
    by auto
qed

text \<open>
  C10. With one argument, is\_undefined decides by identity with the canonical object
  \<open>UndefinedValue\<close>: it returns \<open>TrueValue\<close> exactly when the argument is that object,
  and \<open>FalseValue\<close> for every other object, also for an object of dynamic type
  Undefined at another address. Each of the twelve other type-check builtins tests the
  dynamic type of its argument: it returns \<open>TrueValue\<close> exactly when the argument has
  the builtin's type and \<open>FalseValue\<close> exactly when it has not, so on two arguments of
  the same dynamic type it returns the same result.
\<close>

theorem is_undefined_by_identity:
  "(builtinIsUndefined [x] = Some (Inr TrueValue) \<longleftrightarrow> x = UndefinedValue)
   \<and> (x \<noteq> UndefinedValue \<longrightarrow> builtinIsUndefined [x] = Some (Inr FalseValue))
   \<and> (p \<noteq> 0 \<longrightarrow> builtinIsUndefined [Ref UndefinedType p] = Some (Inr FalseValue))
   \<and> (dynamic_type x = dynamic_type y \<longrightarrow>
        builtinIsString [x] = builtinIsString [y]
      \<and> builtinIsInt [x] = builtinIsInt [y]
      \<and> builtinIsFloat [x] = builtinIsFloat [y]
      \<and> builtinIsBool [x] = builtinIsBool [y]
      \<and> builtinIsChar [x] = builtinIsChar [y]
      \<and> builtinIsBytes [x] = builtinIsBytes [y]
      \<and> builtinIsArray [x] = builtinIsArray [y]
      \<and> builtinIsImmutableArray [x] = builtinIsImmutableArray [y]
      \<and> builtinIsMap [x] = builtinIsMap [y]
      \<and> builtinIsImmutableMap [x] = builtinIsImmutableMap [y]
      \<and> builtinIsTime [x] = builtinIsTime [y]
      \<and> builtinIsError [x] = builtinIsError [y])
   \<and> (builtinIsString [x] = Some (Inr TrueValue) \<longleftrightarrow> dynamic_type x = Some StringType)
   \<and> (builtinIsInt [x] = Some (Inr TrueValue) \<longleftrightarrow> dynamic_type x = Some IntType)
   \<and> (builtinIsFloat [x] = Some (Inr TrueValue) \<longleftrightarrow> dynamic_type x = Some FloatType)
   \<and> (builtinIsBool [x] = Some (Inr TrueValue) \<longleftrightarrow> dynamic_type x = Some BoolType)
   \<and> (builtinIsChar [x] = Some (Inr TrueValue) \<longleftrightarrow> dynamic_type x = Some CharType)
   \<and> (builtinIsBytes [x] = Some (Inr TrueValue) \<longleftrightarrow> dynamic_type x = Some BytesType)
   \<and> (builtinIsArray [x] = Some (Inr TrueValue) \<longleftrightarrow> dynamic_type x = Some ArrayType)
   \<and> (builtinIsImmutableArray [x] = Some (Inr TrueValue) \<longleftrightarrow> dynamic_type x = Some ImmutableArrayType)
   \<and> (builtinIsMap [x] = Some (Inr TrueValue) \<longleftrightarrow> dynamic_type x = Some MapType)
   \<and> (builtinIsImmutableMap [x] = Some (Inr TrueValue) \<longleftrightarrow> dynamic_type x = Some ImmutableMapType)
   \<and> (builtinIsTime [x] = Some (Inr TrueValue) \<longleftrightarrow> dynamic_type x = Some TimeType)
   \<and> (builtinIsError [x] = Some (Inr TrueValue) \<longleftrightarrow> dynamic_type x = Some ErrorType)
   \<and> (builtinIsString [x] = Some (Inr FalseValue) \<longleftrightarrow> dynamic_type x \<noteq> Some StringType)
   \<and> (builtinIsInt [x] = Some (Inr FalseValue) \<longleftrightarrow> dynamic_type x \<noteq> Some IntType)
   \<and> (builtinIsFloat [x] = Some (Inr FalseValue) \<longleftrightarrow> dynamic_type x \<noteq> Some FloatType)
   \<and> (builtinIsBool [x] = Some (Inr FalseValue) \<longleftrightarrow> dynamic_type x \<noteq> Some BoolType)
   \<and> (builtinIsChar [x] = Some (Inr FalseValue) \<longleftrightarrow> dynamic_type x \<noteq> Some CharType)
   \<and> (builtinIsBytes [x] = Some (Inr FalseValue) \<longleftrightarrow> dynamic_type x \<noteq> Some BytesType)
   \<and> (builtinIsArray [x] = Some (Inr FalseValue) \<longleftrightarrow> dynamic_type x \<noteq> Some ArrayType)
   \<and> (builtinIsImmutableArray [x] = Some (Inr FalseValue) \<longleftrightarrow> dynamic_type x \<noteq> Some ImmutableArrayType)
   \<and> (builtinIsMap [x] = Some (Inr FalseValue) \<longleftrightarrow> dynamic_type x \<noteq> Some MapType)
   \<and> (builtinIsImmutableMap [x] = Some (Inr FalseValue) \<longleftrightarrow> dynamic_type x \<noteq> Some ImmutableMapType)
   \<and> (builtinIsTime [x] = Some (Inr FalseValue) \<longleftrightarrow> dynamic_type x \<noteq> Some TimeType)
   \<and> (builtinIsError [x] = Some (Inr FalseValue) \<longleftrightarrow> dynamic_type x \<noteq> Some ErrorType)"
proof -
  have tf: "TrueValue \<noteq> FalseValue" "FalseValue \<noteq> TrueValue"
    using canonical_distinct(1) by auto
  have a: "builtinIsUndefined [x] = Some (Inr TrueValue) \<longleftrightarrow> x = UndefinedValue"
    using tf by (simp add: builtinIsUndefined_def go_index_singleton)
  have b: "x \<noteq> UndefinedValue \<longrightarrow> builtinIsUndefined [x] = Some (Inr FalseValue)"
    by (simp add: builtinIsUndefined_def go_index_singleton)
  have c: "p \<noteq> 0 \<longrightarrow> builtinIsUndefined [Ref UndefinedType p] = Some (Inr FalseValue)"
    by (simp add: builtinIsUndefined_def go_index_singleton UndefinedValue_def)
  have d: "dynamic_type x = dynamic_type y \<longrightarrow>
        builtinIsString [x] = builtinIsString [y]
      \<and> builtinIsInt [x] = builtinIsInt [y]
      \<and> builtinIsFloat [x] = builtinIsFloat [y]
      \<and> builtinIsBool [x] = builtinIsBool [y]
      \<and> builtinIsChar [x] = builtinIsChar [y]
      \<and> builtinIsBytes [x] = builtinIsBytes [y]
      \<and> builtinIsArray [x] = builtinIsArray [y]
      \<and> builtinIsImmutableArray [x] = builtinIsImmutableArray [y]
      \<and> builtinIsMap [x] = builtinIsMap [y]
      \<and> builtinIsImmutableMap [x] = builtinIsImmutableMap [y]
      \<and> builtinIsTime [x] = builtinIsTime [y]
      \<and> builtinIsError [x] = builtinIsError [y]"
    unfolding type_check_defs type_assert_def by (simp add: go_index_singleton)
  have e: "(builtinIsString [x] = Some (Inr TrueValue) \<longleftrightarrow> dynamic_type x = Some StringType)
   \<and> (builtinIsInt [x] = Some (Inr TrueValue) \<longleftrightarrow> dynamic_type x = Some IntType)
   \<and> (builtinIsFloat [x] = Some (Inr TrueValue) \<longleftrightarrow> dynamic_type x = Some FloatType)
   \<and> (builtinIsBool [x] = Some (Inr TrueValue) \<longleftrightarrow> dynamic_type x = Some BoolType)
   \<and> (builtinIsChar [x] = Some (Inr TrueValue) \<longleftrightarrow> dynamic_type x = Some CharType)
   \<and> (builtinIsBytes [x] = Some (Inr TrueValue) \<longleftrightarrow> dynamic_type x = Some BytesType)
   \<and> (builtinIsArray [x] = Some (Inr TrueValue) \<longleftrightarrow> dynamic_type x = Some ArrayType)
   \<and> (builtinIsImmutableArray [x] = Some (Inr TrueValue) \<longleftrightarrow> dynamic_type x = Some ImmutableArrayType)
   \<and> (builtinIsMap [x] = Some (Inr TrueValue) \<longleftrightarrow> dynamic_type x = Some MapType)
   \<and> (builtinIsImmutableMap [x] = Some (Inr TrueValue) \<longleftrightarrow> dynamic_type x = Some ImmutableMapType)
   \<and> (builtinIsTime [x] = Some (Inr TrueValue) \<longleftrightarrow> dynamic_type x = Some TimeType)
   \<and> (builtinIsError [x] = Some (Inr TrueValue) \<longleftrightarrow> dynamic_type x = Some ErrorType)"
    using tf unfolding type_check_defs type_assert_def by (simp add: go_index_singleton)
  have f: "(builtinIsString [x] = Some (Inr FalseValue) \<longleftrightarrow> dynamic_type x \<noteq> Some StringType)
   \<and> (builtinIsInt [x] = Some (Inr FalseValue) \<longleftrightarrow> dynamic_type x \<noteq> Some IntType)
   \<and> (builtinIsFloat [x] = Some (Inr FalseValue) \<longleftrightarrow> dynamic_type x \<noteq> Some FloatType)
   \<and> (builtinIsBool [x] = Some (Inr FalseValue) \<longleftrightarrow> dynamic_type x \<noteq> Some BoolType)
   \<and> (builtinIsChar [x] = Some (Inr FalseValue) \<longleftrightarrow> dynamic_type x \<noteq> Some CharType)
   \<and> (builtinIsBytes [x] = Some (Inr FalseValue) \<longleftrightarrow> dynamic_type x \<noteq> Some BytesType)
   \<and> (builtinIsArray [x] = Some (Inr FalseValue) \<longleftrightarrow> dynamic_type x \<noteq> Some ArrayType)
   \<and> (builtinIsImmutableArray [x] = Some (Inr FalseValue) \<longleftrightarrow> dynamic_type x \<noteq> Some ImmutableArrayType)
   \<and> (builtinIsMap [x] = Some (Inr FalseValue) \<longleftrightarrow> dynamic_type x \<noteq> Some MapType)
   \<and> (builtinIsImmutableMap [x] = Some (Inr FalseValue) \<longleftrightarrow> dynamic_type x \<noteq> Some ImmutableMapType)
   \<and> (builtinIsTime [x] = Some (Inr FalseValue) \<longleftrightarrow> dynamic_type x \<noteq> Some TimeType)
   \<and> (builtinIsError [x] = Some (Inr FalseValue) \<longleftrightarrow> dynamic_type x \<noteq> Some ErrorType)"
    using tf unfolding type_check_defs type_assert_def by (simp add: go_index_singleton)
  from a b c d e f show ?thesis by (simp only: conj_assoc simp_thms)
qed

theorem is_undefined_by_identity_witness:
  "builtinIsUndefined [UndefinedValue] = Some (Inr TrueValue)
   \<and> dynamic_type (Ref UndefinedType 7) = dynamic_type UndefinedValue
   \<and> builtinIsUndefined [Ref UndefinedType 7] = Some (Inr FalseValue)
   \<and> builtinIsUndefined [NilObject] = Some (Inr FalseValue)
   \<and> builtinIsString [Ref StringType 3] = builtinIsString [Ref StringType 4]
   \<and> builtinIsString [Ref StringType 3] = Some (Inr TrueValue)
   \<and> builtinIsString [Ref IntType 3] = Some (Inr FalseValue)
   \<and> builtinIsError [Ref ErrorType 3] = Some (Inr TrueValue)"
proof -
  have h1: "Ref UndefinedType 7 \<noteq> UndefinedValue" "(7::nat) \<noteq> 0"
    "NilObject \<noteq> UndefinedValue"
    by (simp_all add: UndefinedValue_def)
  have h2: "dynamic_type (Ref UndefinedType 7) = dynamic_type UndefinedValue"
    "dynamic_type (Ref StringType 3) = dynamic_type (Ref StringType 4)"
    "dynamic_type (Ref StringType 3) = Some StringType"
    "dynamic_type (Ref IntType 3) \<noteq> Some StringType"
    "dynamic_type (Ref ErrorType 3) = Some ErrorType"
    by (simp_all add: UndefinedValue_def)
  have 1: "builtinIsUndefined [UndefinedValue] = Some (Inr TrueValue)"
    using is_undefined_by_identity [of UndefinedValue 0 UndefinedValue, THEN conjunct1]
    by simp
  have 2: "builtinIsUndefined [Ref UndefinedType 7] = Some (Inr FalseValue)"
    using is_undefined_by_identity [of UndefinedValue 7 UndefinedValue, THEN conjunct2, THEN conjunct2, THEN conjunct1] h1(2)
    by simp
  have 3: "builtinIsUndefined [NilObject] = Some (Inr FalseValue)"
    using is_undefined_by_identity [of NilObject 0 NilObject, THEN conjunct2, THEN conjunct1] h1(3)
    by simp
  have 4: "builtinIsString [Ref StringType 3] = builtinIsString [Ref StringType 4]"
    using is_undefined_by_identity [of "Ref StringType 3" 0 "Ref StringType 4", THEN conjunct2, THEN conjunct2, THEN conjunct2, THEN conjunct1]
      h2(2)
    by simp
  have 5: "builtinIsString [Ref StringType 3] = Some (Inr TrueValue)"
    using is_undefined_by_identity [of "Ref StringType 3" 0 "Ref StringType 3", THEN conjunct2, THEN conjunct2, THEN conjunct2, THEN conjunct2, THEN conjunct1]
      h2(3)
    by simp
  have 6: "builtinIsString [Ref IntType 3] = Some (Inr FalseValue)"
    using is_undefined_by_identity [of "Ref IntType 3" 0 "Ref IntType 3",
        THEN conjunct2, THEN conjunct2, THEN conjunct2, THEN conjunct2, THEN conjunct2, THEN conjunct2, THEN conjunct2, THEN conjunct2, THEN conjunct2, THEN conjunct2, THEN conjunct2, THEN conjunct2, THEN conjunct2, THEN conjunct2, THEN conjunct2, THEN conjunct2, THEN conjunct1]
      h2(4)
    by simp
  have 7: "builtinIsError [Ref ErrorType 3] = Some (Inr TrueValue)"
    using is_undefined_by_identity [of "Ref ErrorType 3" 0 "Ref ErrorType 3",
        THEN conjunct2, THEN conjunct2, THEN conjunct2, THEN conjunct2, THEN conjunct2, THEN conjunct2, THEN conjunct2, THEN conjunct2, THEN conjunct2, THEN conjunct2, THEN conjunct2, THEN conjunct2, THEN conjunct2, THEN conjunct2, THEN conjunct2, THEN conjunct1]
      h2(5)
    by simp
  from 1 h2(1) 2 3 4 5 6 7 show ?thesis by (intro conjI)
qed

section \<open>Properties of name resolution and the sandbox\<close>

subsection \<open>Sequencing and the symbol table\<close>

lemma bindE_Inr_iff:
  "bindE m f = Inr y \<longleftrightarrow> (\<exists>x st. m = Inr (x, st) \<and> f x st = Inr y)"
  by (cases m) (auto simp: bindE_def)

lemma bindE_simps [simp]: "bindE (Inl e) f = Inl e" "bindE (Inr (x, st)) f = f x st"
  by (simp_all add: bindE_def)









subsection \<open>A script that compiles imports no disabled name\<close>

lemma compile_imports_aux:
  "(\<exists>r. compile_expr cfg e st = Inr r) \<longrightarrow>
     imports_of e \<inter> (disabled_modules cfg \<union> disabled_builtins cfg) = {}"
  "(\<exists>r. compile_exprs cfg es st = Inr r) \<longrightarrow>
     imports_of_list es \<inter> (disabled_modules cfg \<union> disabled_builtins cfg) = {}"
  "(\<exists>r. compile_stmt cfg lp s st = Inr r) \<longrightarrow>
     imports_of_stmt s \<inter> (disabled_modules cfg \<union> disabled_builtins cfg) = {}"
  "(\<exists>r. compile_stmts cfg lp ss st = Inr r) \<longrightarrow>
     imports_of_stmts ss \<inter> (disabled_modules cfg \<union> disabled_builtins cfg) = {}"
proof (induction cfg e st and cfg es st and cfg lp s st and cfg lp ss st
    rule: compile_expr_compile_exprs_compile_stmt_compile_stmts.induct)
  case (15 cfg params variadic body tab cs)
  then show ?case
    by (auto simp: bindE_Inr_iff case_prod_beta split: option.splits)
next
  case (16 cfg n ps tab cs)
  then show ?case by (auto split: if_splits)
next
  case (22 cfg lp c t e st)
  show ?case
  proof
    assume "\<exists>r. compile_stmt cfg lp (IfStmt c t e) st = Inr r"
    then obtain cc st1 ct st2 ce st3 where
      c: "compile_expr cfg c st = Inr (cc, st1)" and
      t: "compile_stmts cfg lp t st1 = Inr (ct, st2)" and
      e: "compile_stmts cfg lp e st2 = Inr (ce, st3)"
      by (auto simp: bindE_Inr_iff)
    from 22(1) c 22(2)[OF c] t 22(3)[OF c t] e
    show "imports_of_stmt (IfStmt c t e) \<inter> (disabled_modules cfg \<union> disabled_builtins cfg) = {}"
      by (simp add: Int_Un_distrib2)
  qed
qed (auto simp: bindE_Inr_iff case_prod_beta Int_Un_distrib2 split: option.splits)

subsection \<open>A script that compiles looks up bound names and enabled builtins only\<close>


subsection \<open>A script that compiles does so with no builtin disabled\<close>



lemma compile_stmts_imports:
  "compile_stmts cfg lp ss st = Inr r \<Longrightarrow>
     imports_of_stmts ss \<inter> (disabled_modules cfg \<union> disabled_builtins cfg) = {}"
  using compile_imports_aux(4) by blast





lemma compile_Inr_iff:
  "compile cfg injected prog = Inr bc \<longleftrightarrow>
     (\<exists>code tab cs. compile_stmts cfg False prog (define_all injected (GlobalScope [] 0), []) = Inr (code, (tab, cs))
       \<and> bc = \<lparr>main_function = code @ [OpReturn], constants = cs, num_globals = num_definitions tab\<rparr>)"
  by (auto simp: compile_def bindE_Inr_iff)

lemma not_Inr_is_Inl: "(\<forall>b. r \<noteq> Inr b) \<Longrightarrow> \<exists>e. r = Inl e"
  by (cases r) auto

lemmas example_defs =
  sandbox_def std_resolver_def script_len_def script_math_def script_shadow_def
  script_len_later_def script_len_param_def

subsection \<open>The sandbox claims\<close>

text \<open>
  C3. For every module name in the disabled set of standard modules, compiling a script
  that contains an import of that name, anywhere in it, fails with a compile-time error
  and yields no Bytecode, whatever the module resolver, the injected variables and the
  rest of the script are. The witness is the script of the test, which compiles with
  nothing disabled and fails once math is disabled.
\<close>

theorem disabled_module_import_fails:
  assumes "n \<in> disabled_modules cfg" and "n \<in> imports_of_stmts prog"
  shows "\<exists>e. compile cfg injected prog = Inl e"
proof (rule not_Inr_is_Inl, intro allI notI)
  fix bc
  assume "compile cfg injected prog = Inr bc"
  then obtain r where
    "compile_stmts cfg False prog (define_all injected (GlobalScope [] 0), []) = Inr r"
    by (auto simp: compile_Inr_iff)
  from compile_stmts_imports [OF this] assms show False by blast
qed

theorem disabled_module_import_fails_witness:
  "compile (sandbox {} {}) [] script_math =
     Inr \<lparr>main_function =
            [OpConstant 0, OpCall 0, OpSetGlobal 0, OpGetGlobal 0, OpConstant 1,
             OpIndex, OpConstant 2, OpUnaryOp NegOp, OpCall 1, OpSetGlobal 1, OpReturn],
          constants = [StdModule ''math'', StringConst ''abs'', IntConst 19],
          num_globals = 2\<rparr>
   \<and> ''math'' \<in> disabled_modules (sandbox {} {''math''})
   \<and> ''math'' \<in> imports_of_stmts script_math
   \<and> (\<exists>e. compile (sandbox {} {''math''}) [] script_math = Inl e)
   \<and> compile (sandbox {} {''math''}) [] script_math = Inl (DisabledModule ''math'' 8)"
proof -
  have d: "''math'' \<in> disabled_modules (sandbox {} {''math''})"
    by (simp add: sandbox_def)
  have i: "''math'' \<in> imports_of_stmts script_math"
    by (simp add: script_math_def)
  have ok: "compile (sandbox {} {}) [] script_math =
     Inr \<lparr>main_function =
            [OpConstant 0, OpCall 0, OpSetGlobal 0, OpGetGlobal 0, OpConstant 1,
             OpIndex, OpConstant 2, OpUnaryOp NegOp, OpCall 1, OpSetGlobal 1, OpReturn],
          constants = [StdModule ''math'', StringConst ''abs'', IntConst 19],
          num_globals = 2\<rparr>"
    by (simp add: example_defs compile_def resolve_def add_constant_def)
  have err: "compile (sandbox {} {''math''}) [] script_math = Inl (DisabledModule ''math'' 8)"
    by (simp add: example_defs compile_def resolve_def add_constant_def)
  from disabled_module_import_fails [OF d i, of "[]"] d i ok err show ?thesis
    by simp
qed



text \<open>
  User-defined symbols take precedence over builtins (spec 4.2). In
  \<^verbatim>\<open>len := 1; a := len\<close> the lookup of \<^verbatim>\<open>len\<close> finds the script's variable: the
  script does not reference the builtin, and it compiles with the builtin disabled.
\<close>

lemma shadowing_script_compiles:
  "''len'' \<notin> free_names_stmts (set []) script_shadow
   \<and> compile (sandbox {''len''} {}) [] script_shadow =
       Inr \<lparr>main_function =
              [OpConstant 0, OpSetGlobal 0, OpGetGlobal 0, OpSetGlobal 1, OpReturn],
            constants = [IntConst 1], num_globals = 2\<rparr>"
  by (simp add: example_defs compile_def resolve_def add_constant_def)

end
